theory Spec2Isabelle
  imports Complex_Main "HOL-Library.AList" "HOL-Library.Char_ord" "HOL-Library.List_Lexorder"
    "HOL-Library.Sublist"
begin

section \<open>MONAIViz: the pipeline runner and its execution cache\<close>

text \<open>
  The development embeds \<^verbatim>\<open>MONAIViz/MONAIViz.py\<close> (the widget of the module and its
  \<^verbatim>\<open>TransformCtx\<close>) and \<^verbatim>\<open>SlicerMONAIVizLib/utils.py\<close> (the transform catalog).
  \<^verbatim>\<open>SlicerMONAIViz.py\<close> is an earlier copy of the same widget; where it differs from
  \<^verbatim>\<open>MONAIViz.py\<close> on a function embedded here, the difference is written next to the
  definition.

  Python objects are passed explicitly: a method takes the object (a record) and returns
  the updated one. An exception is a value of \<open>py_error\<close>. A method that can raise
  after it has already written to the object returns the pair of the exception, if any,
  and the object as the exception leaves it.
\<close>

subsection \<open>Values\<close>

datatype py_error =
  ZeroDivisionError | KeyError | TypeError | AttributeError | IndexError | ValueError
  | TransformError string

type_synonym shape = "nat list"

text \<open>A matrix is the list of its rows. Entries are reals: rounding is not modelled.\<close>

type_synonym matrix = "real list list"

text \<open>
  What a key of the data dictionary holds: \<open>None\<close>, a string (the path of a file before
  the loader ran), an array without meta data, or a \<^verbatim>\<open>MetaTensor\<close> with its shape and
  affine.
\<close>

datatype pyvalue = PNone | Str string | NdArray shape | MetaTensor shape matrix

text \<open>A dictionary in insertion order, keys distinct.\<close>

type_synonym pydict = "(string \<times> pyvalue) list"

text \<open>The running value of the pipeline is a dictionary or a list (batched transforms).\<close>

datatype pydata = Dict pydict | PList "pydata list"

type_synonym transform = "pydata \<Rightarrow> py_error + pydata"

subsection \<open>\<^verbatim>\<open>TransformCtx\<close>\<close>

text \<open>
  The field \<^verbatim>\<open>d\<close> is named \<open>ctx_d\<close>. \<^verbatim>\<open>next_idx\<close> is a Python integer that
  \<^verbatim>\<open>set_next\<close> stores as it is given, so it is an \<open>int\<close> here and may be negative.
  \<^verbatim>\<open>bidx\<close> is written by the class alone, 0 in \<^verbatim>\<open>__init__\<close> and \<^verbatim>\<open>+= 1\<close> in \<^verbatim>\<open>set_next\<close>:
  a natural number.
\<close>

record transform_ctx =
  ctx_d :: "pydata option"
  last_exp :: string
  next_idx :: int
  next_exp :: string
  channel :: bool
  bidx :: nat
  original_spatial_shape :: "shape option"
  original_affine :: "matrix option"

definition init :: transform_ctx where
  "init = \<lparr>ctx_d = None, last_exp = [], next_idx = 0, next_exp = [], channel = False,
     bidx = 0, original_spatial_shape = None, original_affine = None\<rparr>"

definition reset :: "transform_ctx \<Rightarrow> transform_ctx" where
  "reset c = init"

definition valid :: "transform_ctx \<Rightarrow> bool" where
  "valid c = (if ctx_d c = None \<or> next_idx c = 0 then False else True)"

text \<open>\<^verbatim>\<open>exp\<close> may be \<^verbatim>\<open>None\<close>; \<^verbatim>\<open>None\<close> and the empty string are falsy.\<close>

definition valid_for_next :: "transform_ctx \<Rightarrow> string option \<Rightarrow> bool" where
  "valid_for_next c expr =
     (case expr of
        None \<Rightarrow> False
      | Some e \<Rightarrow> (if e \<noteq> [] \<and> next_exp c \<noteq> [] \<and> e = next_exp c then True else False))"

text \<open>
  \<^verbatim>\<open>bidx = self.bidx % len(self.d) if isinstance(self.d, list) else -1\<close> followed by
  \<^verbatim>\<open>self.d[bidx] if bidx >= 0 else self.d\<close>, as \<^verbatim>\<open>get_d\<close>, \<^verbatim>\<open>get_tensor\<close> and
  \<^verbatim>\<open>get_tensor_osd\<close> compute it. The result is the batch index (\<open>None\<close> for -1) and the
  selected element; \<^verbatim>\<open>%\<close> raises on an empty list.
\<close>

definition batch_index :: "transform_ctx \<Rightarrow> py_error + nat option" where
  "batch_index c =
     (case ctx_d c of
        Some (PList xs) \<Rightarrow>
          (if length xs = 0 then Inl ZeroDivisionError else Inr (Some (bidx c mod length xs)))
      | _ \<Rightarrow> Inr None)"

definition select_d :: "transform_ctx \<Rightarrow> py_error + pydata option" where
  "select_d c =
     (case batch_index c of
        Inl e \<Rightarrow> Inl e
      | Inr (Some i) \<Rightarrow> (case ctx_d c of Some (PList xs) \<Rightarrow> Inr (Some (xs ! i)) | v \<Rightarrow> Inr v)
      | Inr None \<Rightarrow> Inr (ctx_d c))"

text \<open>
  \<^verbatim>\<open>get_d(exp, d)\<close> returns the value and the context, which it may have reset. A
  valid context holds data, so the cases for \<^verbatim>\<open>self.d is None\<close> under \<open>valid\<close> are never
  taken; the variable \<^verbatim>\<open>exp\<close> is written \<open>expr\<close>.
\<close>

definition get_d :: "transform_ctx \<Rightarrow> string option \<Rightarrow> pydata \<Rightarrow> py_error + (pydata \<times> transform_ctx)" where
  "get_d c expr d =
     (case expr of
        None \<Rightarrow>
          (if valid c then
             (case select_d c of
                Inl e \<Rightarrow> Inl e
              | Inr None \<Rightarrow> Inr (d, c)
              | Inr (Some v) \<Rightarrow> Inr (v, c))
           else Inr (d, c))
      | Some e \<Rightarrow>
          (let c1 = (if \<not> valid_for_next c expr then reset c else c) in
           if \<not> valid c1 then Inr (d, c1)
           else (case ctx_d c1 of None \<Rightarrow> Inr (d, c1) | Some v \<Rightarrow> Inr (v, c1))))"

text \<open>\<^verbatim>\<open>"EnsureChannelFirstd" in exp\<close>: the substring test of Python strings.\<close>

fun py_in :: "string \<Rightarrow> string \<Rightarrow> bool" where
  "py_in s [] = (s = [])"
| "py_in s (c # cs) = (prefix s (c # cs) \<or> py_in s cs)"

text \<open>
  \<^verbatim>\<open>d[self.bidx % len(d)][key] if isinstance(d, list) else d[key]\<close>: a list is indexed
  by the batch cursor, and its element, or the dictionary itself, by the key.
\<close>

definition subscript_key :: "pydata \<Rightarrow> string \<Rightarrow> py_error + pyvalue" where
  "subscript_key x key =
     (case x of
        Dict m \<Rightarrow> (case map_of m key of None \<Rightarrow> Inl KeyError | Some v \<Rightarrow> Inr v)
      | PList _ \<Rightarrow> Inl TypeError)"

definition key_tensor_of :: "nat \<Rightarrow> pydata \<Rightarrow> string \<Rightarrow> py_error + pyvalue" where
  "key_tensor_of b d key =
     (case d of
        PList xs \<Rightarrow>
          (if length xs = 0 then Inl ZeroDivisionError
           else subscript_key (xs ! (b mod length xs)) key)
      | Dict m \<Rightarrow> subscript_key d key)"

text \<open>\<^verbatim>\<open>key_tensor.shape\<close> and \<^verbatim>\<open>key_tensor.affine.numpy()\<close>.\<close>

definition shape_of :: "pyvalue \<Rightarrow> py_error + shape" where
  "shape_of v =
     (case v of NdArray s \<Rightarrow> Inr s | MetaTensor s a \<Rightarrow> Inr s | _ \<Rightarrow> Inl AttributeError)"

definition affine_of :: "pyvalue \<Rightarrow> py_error + matrix" where
  "affine_of v = (case v of MetaTensor s a \<Rightarrow> Inr a | _ \<Rightarrow> Inl AttributeError)"

text \<open>
  \<^verbatim>\<open>set_d(d, exp, key)\<close>. The shape is read (and printed) before anything is written;
  the affine is read after \<^verbatim>\<open>original_spatial_shape\<close> has been assigned.
\<close>

definition set_d :: "transform_ctx \<Rightarrow> pydata \<Rightarrow> string \<Rightarrow> string \<Rightarrow> py_error option \<times> transform_ctx" where
  "set_d c d expr key =
     (case key_tensor_of (bidx c) d key of
        Inl e \<Rightarrow> (Some e, c)
      | Inr key_tensor \<Rightarrow>
          (case shape_of key_tensor of
             Inl e \<Rightarrow> (Some e, c)
           | Inr sh \<Rightarrow>
               (let r1 =
                  (if original_spatial_shape c = None then
                     (let c1 = c\<lparr>original_spatial_shape := Some sh\<rparr> in
                      case affine_of key_tensor of
                        Inl e \<Rightarrow> (Some e, c1)
                      | Inr a \<Rightarrow> (None, c1\<lparr>original_affine := Some a\<rparr>))
                   else (None, c))
                in case r1 of
                     (Some e, c2) \<Rightarrow> (Some e, c2)
                   | (None, c2) \<Rightarrow>
                       (let c3 = (if py_in ''EnsureChannelFirstd'' expr then c2\<lparr>channel := True\<rparr> else c2)
                        in (None, c3\<lparr>ctx_d := Some d, last_exp := expr\<rparr>)))))"

definition set_next :: "transform_ctx \<Rightarrow> int \<Rightarrow> string \<Rightarrow> transform_ctx" where
  "set_next c i e =
     (if next_idx c = i \<and> next_exp c = e then c\<lparr>bidx := bidx c + 1\<rparr>
      else c\<lparr>next_idx := i, next_exp := e\<rparr>)"

subsection \<open>The widget: settings, inputs and the transform table\<close>

text \<open>
  A row of \<^verbatim>\<open>transformTable\<close>: the check box of column 0, the status icon of column 1,
  the target of column 2 and the argument expression of column 3.
\<close>

datatype icon = Yellow | Green

record row =
  active :: bool
  status :: icon
  target :: string
  args :: string

text \<open>
  \<^verbatim>\<open>currentRow()\<close> is -1 when no row is selected: \<open>None\<close> here. \<open>additional\<close> is what
  \<^verbatim>\<open>json.loads\<close> makes of the text box, or the exception it raises. \<open>settings\<close> is the
  application's settings store.
\<close>

record widget =
  table :: "row list"
  current_row :: "nat option"
  ctx :: transform_ctx
  image_path :: string
  label_path :: string
  additional :: "py_error + pydict"
  settings :: "(string \<times> string) list"

definition settingsValue :: "(string \<times> string) list \<Rightarrow> string \<Rightarrow> string \<Rightarrow> string" where
  "settingsValue st key dflt = (case map_of st key of None \<Rightarrow> dflt | Some v \<Rightarrow> v)"

text \<open>
  \<^verbatim>\<open>prepare_dict\<close>: \<^verbatim>\<open>{image_key: image, **additional}\<close>, then the label when there is
  one. A key that is already present keeps its place and takes the new value.
\<close>

definition prepare_dict :: "widget \<Rightarrow> py_error + pydata" where
  "prepare_dict w =
     (case additional w of
        Inl e \<Rightarrow> Inl e
      | Inr extra \<Rightarrow>
          (let image_key = settingsValue (settings w) ''MONAIViz/imageKey'' ''image'';
               label_key = settingsValue (settings w) ''MONAIViz/labelKey'' ''label'';
               d = foldl (\<lambda>m kv. AList.update (fst kv) (snd kv) m) [(image_key, Str (image_path w))] extra
           in Inr (Dict (if label_path w \<noteq> [] then AList.update label_key (Str (label_path w)) d else d))))"

definition get_exp :: "row \<Rightarrow> string" where
  "get_exp r = ''monai.transforms.'' @ target r @ ''('' @ args r @ '')''"

text \<open>\<^verbatim>\<open>item(row, 2)\<close> is \<^verbatim>\<open>None\<close> for a row the table does not have.\<close>

definition get_exp_at :: "row list \<Rightarrow> nat \<Rightarrow> py_error + string" where
  "get_exp_at tbl r = (if r < length tbl then Inr (get_exp (tbl ! r)) else Inl AttributeError)"

definition set_icon :: "row list \<Rightarrow> nat \<Rightarrow> icon \<Rightarrow> row list" where
  "set_icon tbl r i = tbl[r := (tbl ! r)\<lparr>status := i\<rparr>]"

subsection \<open>Running the pipeline\<close>

text \<open>
  What the widget does not own: \<open>ev\<close> is \<^verbatim>\<open>eval\<close> on a constructor expression, which
  gives a transform or raises; \<open>viewer\<close> is the display of the result
  (\<^verbatim>\<open>get_tensor\<close>, \<^verbatim>\<open>get_tensor_osd\<close> and the scene API, lines 602 to 622 of
  \<^verbatim>\<open>onRunTransform\<close>), which reads the context, never writes it, and may raise.
\<close>

record env =
  ev :: "string \<Rightarrow> py_error + transform"
  viewer :: "transform_ctx \<Rightarrow> py_error option"

text \<open>\<^verbatim>\<open>[t(dx) for dx in d]\<close>: the first exception ends the comprehension.\<close>

fun map_transform :: "transform \<Rightarrow> pydata list \<Rightarrow> py_error + pydata list" where
  "map_transform t [] = Inr []"
| "map_transform t (x # xs) =
     (case t x of
        Inl e \<Rightarrow> Inl e
      | Inr y \<Rightarrow> (case map_transform t xs of Inl e \<Rightarrow> Inl e | Inr ys \<Rightarrow> Inr (y # ys)))"

definition apply_transform :: "transform \<Rightarrow> pydata \<Rightarrow> py_error + pydata" where
  "apply_transform t d =
     (case d of
        PList xs \<Rightarrow> (case map_transform t xs of Inl e \<Rightarrow> Inl e | Inr ys \<Rightarrow> Inr (PList ys))
      | Dict m \<Rightarrow> t d)"

text \<open>
  The state of the loop of \<^verbatim>\<open>onRunTransform\<close>: the local \<^verbatim>\<open>d\<close>, the context, the table
  (for its icons) and the rows whose \<^verbatim>\<open>Run::\<close> banner has been printed, in order.
\<close>

record loop_state =
  ls_d :: pydata
  ls_ctx :: transform_ctx
  ls_table :: "row list"
  ls_trace :: "nat list"

text \<open>
  The body of \<^verbatim>\<open>for row in range(self.ctx.next_idx, current_row + 1)\<close>, over the rows
  left. An exception ends the loop with the state as it is then.
\<close>

fun run_rows :: "env \<Rightarrow> string \<Rightarrow> nat list \<Rightarrow> loop_state \<Rightarrow> py_error option \<times> loop_state" where
  "run_rows en key [] s = (None, s)"
| "run_rows en key (r # rs) s =
     (if \<not> r < length (ls_table s) then (Some AttributeError, s)
      else if active (ls_table s ! r) then
        (let expr = get_exp (ls_table s ! r);
             s1 = s\<lparr>ls_trace := ls_trace s @ [r]\<rparr>
         in case ev en expr of
              Inl e \<Rightarrow> (Some e, s1)
            | Inr t \<Rightarrow>
                (case apply_transform t (ls_d s1) of
                   Inl e \<Rightarrow> (Some e, s1)
                 | Inr d' \<Rightarrow>
                     (case set_d (ls_ctx s1) d' expr key of
                        (Some e, c') \<Rightarrow> (Some e, s1\<lparr>ls_d := d', ls_ctx := c'\<rparr>)
                      | (None, c') \<Rightarrow>
                          run_rows en key rs
                            (s1\<lparr>ls_d := d', ls_ctx := c', ls_table := set_icon (ls_table s1) r Green\<rparr>))))
      else run_rows en key rs (s\<lparr>ls_table := set_icon (ls_table s) r Yellow\<rparr>))"

text \<open>
  \<^verbatim>\<open>if self.ctx.last_exp != current_exp: for row in range(self.ctx.next_idx, current_row + 1)\<close>,
  from the value \<open>d\<close> and the context \<open>c0\<close> that \<^verbatim>\<open>get_d\<close> has left. The current row is
  not negative, so the range of a negative \<^verbatim>\<open>next_idx\<close> is not empty and starts at a row the
  table does not have: \<^verbatim>\<open>cellWidget(row, 0)\<close> is \<^verbatim>\<open>None\<close> there and \<^verbatim>\<open>findChild\<close> raises in
  the first iteration.
\<close>

definition run_from ::
  "env \<Rightarrow> string \<Rightarrow> row list \<Rightarrow> nat \<Rightarrow> string \<Rightarrow> pydata \<Rightarrow> transform_ctx \<Rightarrow> py_error option \<times> loop_state" where
  "run_from en key tbl k current_exp d c0 =
     (let s0 = \<lparr>ls_d = d, ls_ctx = c0, ls_table = tbl, ls_trace = []\<rparr> in
      if last_exp c0 \<noteq> current_exp then
        (if next_idx c0 < 0 then (Some AttributeError, s0)
         else run_rows en key [nat (next_idx c0) ..< Suc k] s0)
      else (None, s0))"

datatype outcome = Returned | Raised py_error

text \<open>
  \<^verbatim>\<open>for row in range(next_idx, rowCount): ... setIcon(yellow)\<close>.
\<close>

definition yellow_from :: "nat \<Rightarrow> row list \<Rightarrow> row list" where
  "yellow_from n tbl = take n tbl @ map (\<lambda>r. r\<lparr>status := Yellow\<rparr>) (drop n tbl)"

text \<open>
  \<^verbatim>\<open>onRunTransform\<close>. The result is how the call ends, the widget as the call leaves it,
  and the rows whose transform was evaluated. \<^verbatim>\<open>try ... finally\<close> only restores the
  cursor: an exception goes to the caller.
\<close>

definition onRunTransform :: "env \<Rightarrow> widget \<Rightarrow> outcome \<times> widget \<times> nat list" where
  "onRunTransform en w =
     (if image_path w = [] then (Returned, w, [])
      else case current_row w of
        None \<Rightarrow> (Returned, w, [])
      | Some k \<Rightarrow>
          (let image_key = settingsValue (settings w) ''MONAIViz/imageKey'' ''image'' in
           case get_exp_at (table w) k of
             Inl e \<Rightarrow> (Raised e, w, [])
           | Inr current_exp \<Rightarrow>
               (case prepare_dict w of
                  Inl e \<Rightarrow> (Raised e, w, [])
                | Inr d0 \<Rightarrow>
                    (case get_d (ctx w) (Some current_exp) d0 of
                       Inl e \<Rightarrow> (Raised e, w, [])
                     | Inr (d, c0) \<Rightarrow>
                         (case run_from en image_key (table w) k current_exp d c0 of
                            (Some e, s) \<Rightarrow>
                              (Raised e, w\<lparr>table := ls_table s, ctx := ls_ctx s\<rparr>, ls_trace s)
                          | (None, s) \<Rightarrow>
                              (let w1 =
                                 (if Suc k < length (ls_table s)
                                  then w\<lparr>table := yellow_from (Suc k) (ls_table s),
                                         current_row := Some (Suc k), ctx := ls_ctx s\<rparr>
                                  else w\<lparr>table := ls_table s, ctx := ls_ctx s\<rparr>);
                                   nxt = (if Suc k < length (ls_table s) then Suc k else k);
                                   nxt_exp = get_exp (ls_table s ! nxt)
                               in case viewer en (ls_ctx s) of
                                    Some e \<Rightarrow> (Raised e, w1, ls_trace s)
                                  | None \<Rightarrow>
                                      (Returned, w1\<lparr>ctx := set_next (ls_ctx s) (int nxt) nxt_exp\<rparr>,
                                       ls_trace s)))))))"

definition onClearTransform :: "widget \<Rightarrow> widget" where
  "onClearTransform w = w\<lparr>ctx := reset (ctx w), table := yellow_from 0 (table w)\<rparr>"

text \<open>
  \<^verbatim>\<open>onBoxClicked(clicked, current_row)\<close>, connected to the check box of a row with the
  position \<^verbatim>\<open>addTransform\<close> gave the row, which is not negative; \<^verbatim>\<open>current_row\<close> is
  written \<open>r\<close>.
\<close>

definition onBoxClicked :: "nat \<Rightarrow> widget \<Rightarrow> outcome \<times> widget" where
  "onBoxClicked r w =
     (case get_exp_at (table w) r of
        Inl e \<Rightarrow> (Raised e, w)
      | Inr nxt_exp \<Rightarrow> (Returned, w\<lparr>ctx := reset (set_next (ctx w) (int r) nxt_exp)\<rparr>))"

text \<open>
  \<^verbatim>\<open>onEditTransform(row, col)\<close>. \<open>row_arg\<close> is the argument \<^verbatim>\<open>row\<close> (\<open>None\<close> for the
  default -1). \<open>doc_cached\<close> says whether \<^verbatim>\<open>transforms.html\<close> is in the temporary
  directory: when it is not, \<^verbatim>\<open>open(doc_html, "wb", encoding="utf-8")\<close> raises
  \<^verbatim>\<open>ValueError\<close>, since a binary mode takes no encoding. \<open>new_exp\<close> is what the dialog
  gives: \<open>None\<close> when it is closed without an update (\<^verbatim>\<open>updatedArgs is None\<close>), else
  \<^verbatim>\<open>ClassUtils.args_to_expression(dlg.updatedArgs)\<close>, a function of \<^verbatim>\<open>MONAIVizLib\<close>.
  \<^verbatim>\<open>SlicerMONAIViz.py\<close> has the same test with \<^verbatim>\<open>next_t\<close> for \<^verbatim>\<open>next_idx\<close>.
\<close>

definition onEditTransform :: "bool \<Rightarrow> string option \<Rightarrow> nat option \<Rightarrow> widget \<Rightarrow> outcome \<times> widget" where
  "onEditTransform doc_cached new_exp row_arg w =
     (case (case row_arg of None \<Rightarrow> current_row w | Some r \<Rightarrow> Some r) of
        None \<Rightarrow> (Returned, w)
      | Some r \<Rightarrow>
          (if \<not> r < length (table w) then (Raised AttributeError, w)
           else if \<not> doc_cached then (Raised ValueError, w)
           else case new_exp of
             None \<Rightarrow> (Returned, w)
           | Some e \<Rightarrow>
               (if args (table w ! r) \<noteq> e then
                  (let w1 = (if int r < next_idx (ctx w) \<or> Suc r = length (table w)
                             then onClearTransform w else w)
                   in (Returned, w1\<lparr>table := (table w1)[r := (table w1 ! r)\<lparr>args := e\<rparr>]\<rparr>))
                else (Returned, w))))"

subsection \<open>Functions the statements are written with\<close>

text \<open>
  These are not in the source. \<open>apply_all\<close> applies the transforms of a list of
  expressions one after the other to a value, each on the result of the one before;
  \<open>exps\<close> are the expressions of a list of rows and \<open>active_of\<close> the rows of a list
  whose box is checked. \<open>aligned\<close> and \<open>start_value\<close> name the context and the value
  that \<^verbatim>\<open>get_d\<close> leaves for an expression. \<open>failed_at\<close> says that the step for the
  expression \<open>x\<close>, from the value \<open>d\<close> and the context \<open>c\<close>, raises \<open>e\<close> and leaves the
  context \<open>c'\<close>.
\<close>

fun apply_all :: "env \<Rightarrow> string list \<Rightarrow> pydata \<Rightarrow> py_error + pydata" where
  "apply_all en [] d = Inr d"
| "apply_all en (x # xs) d =
     (case ev en x of
        Inl e \<Rightarrow> Inl e
      | Inr t \<Rightarrow> (case apply_transform t d of Inl e \<Rightarrow> Inl e | Inr d' \<Rightarrow> apply_all en xs d'))"

definition exps :: "row list \<Rightarrow> nat list \<Rightarrow> string list" where
  "exps tbl rs = map (\<lambda>r. get_exp (tbl ! r)) rs"

definition active_of :: "row list \<Rightarrow> nat list \<Rightarrow> nat list" where
  "active_of tbl rs = filter (\<lambda>r. active (tbl ! r)) rs"

definition aligned :: "transform_ctx \<Rightarrow> string \<Rightarrow> transform_ctx" where
  "aligned c x = (if valid_for_next c (Some x) then c else init)"

definition start_value :: "transform_ctx \<Rightarrow> string \<Rightarrow> pydata \<Rightarrow> pydata" where
  "start_value c x d0 = (if valid_for_next c (Some x) \<and> valid c then the (ctx_d c) else d0)"


subsection \<open>Example inputs\<close>

text \<open>
  A 4 by 4 identity affine; a loader that stores a tensor under the image key, a
  transform that returns its argument, one that returns two samples of it (as the random
  crops with \<^verbatim>\<open>num_samples=2\<close> return a list), and one that raises; an \<^verbatim>\<open>eval\<close> that
  knows six expressions and raises on every other; a display that never fails; rows with
  the arguments \<^verbatim>\<open>keys=['image']\<close>; a widget with an image path and no label; tables; and
  the widget that running row 0 of a table of three active rows leaves.
\<close>

definition identity4 :: matrix where
  "identity4 = [[1, 0, 0, 0], [0, 1, 0, 0], [0, 0, 1, 0], [0, 0, 0, 1]]"

definition load_image :: transform where
  "load_image x =
     (case x of
        Dict m \<Rightarrow> Inr (Dict (AList.update ''image'' (MetaTensor [4, 4, 4] identity4) m))
      | PList xs \<Rightarrow> Inl TypeError)"

definition same :: transform where
  "same x = Inr x"

definition two_samples :: transform where
  "two_samples x = Inr (PList [x, x])"

definition failing :: transform where
  "failing x = Inl (TransformError ''pixdim'')"

definition ev0 :: "string \<Rightarrow> py_error + transform" where
  "ev0 x =
     (if x = ''monai.transforms.LoadImaged(keys=['image'])'' then Inr load_image
      else if x = ''monai.transforms.LoadImaged(keys=['image'], image_only=True)'' then Inr load_image
      else if x = ''monai.transforms.Flipd(keys=['image'])'' then Inr same
      else if x = ''monai.transforms.Rotate90d(keys=['image'])'' then Inr same
      else if x = ''monai.transforms.RandSpatialCropSamplesd(keys=['image'])'' then Inr two_samples
      else if x = ''monai.transforms.Spacingd(keys=['image'])'' then Inr failing
      else Inl (TransformError x))"

definition en0 :: env where
  "en0 = \<lparr>ev = ev0, viewer = (\<lambda>c. None)\<rparr>"

definition mk_row :: "bool \<Rightarrow> string \<Rightarrow> row" where
  "mk_row a t = \<lparr>active = a, status = Yellow, target = t, args = ''keys=['image']''\<rparr>"

definition mk_widget :: "row list \<Rightarrow> nat \<Rightarrow> transform_ctx \<Rightarrow> widget" where
  "mk_widget tbl k c =
     \<lparr>table = tbl, current_row = Some k, ctx = c, image_path = ''a.nii.gz'', label_path = [],
      additional = Inr [], settings = []\<rparr>"

definition tbl_skip :: "row list" where
  "tbl_skip = [mk_row True ''LoadImaged'', mk_row False ''Flipd'', mk_row True ''Rotate90d'']"

definition tbl3 :: "row list" where
  "tbl3 = [mk_row True ''LoadImaged'', mk_row True ''Flipd'', mk_row True ''Rotate90d'']"

definition after_row0 :: widget where
  "after_row0 = fst (snd (onRunTransform en0 (mk_widget tbl3 0 init)))"

text \<open>
  A table whose last row returns two samples, the widget that running that row leaves,
  and the same widget after a row has been added at the end and row 1 selected again.
\<close>

definition tbl_crop :: "row list" where
  "tbl_crop = [mk_row True ''LoadImaged'', mk_row True ''RandSpatialCropSamplesd'']"

definition after_crop :: widget where
  "after_crop = fst (snd (onRunTransform en0 (mk_widget tbl_crop 1 init)))"

definition row_added :: widget where
  "row_added = after_crop\<lparr>table := table after_crop @ [mk_row True ''Flipd'']\<rparr>"


text \<open>
  The widget left by running row 0 of three rows, after the arguments of row 0 have been
  edited.
\<close>

definition edited_row0 :: widget where
  "edited_row0 = snd (onEditTransform True (Some ''keys=['image'], image_only=True'') (Some 0) after_row0)"

subsection \<open>Adding a transform to the table\<close>

text \<open>
  The names \<^verbatim>\<open>onAddTransform\<close> and \<^verbatim>\<open>onLoadTransform\<close> list as ending in \<^verbatim>\<open>d\<close> without being
  dictionary transforms; both functions write the list out.
\<close>

definition not_dictionary :: "string list" where
  "not_dictionary = [''AffineGrid'', ''Decollated'', ''RandAffineGrid'', ''RandDeformGrid'']"

text \<open>
  \<^verbatim>\<open>addTransform(pos, m, t, v, active)\<close>. A negative \<^verbatim>\<open>pos\<close> stands for the row after the
  current one, or the end of the table when no row is selected. \<^verbatim>\<open>insertRow\<close>, \<^verbatim>\<open>setItem\<close>
  and \<^verbatim>\<open>selectRow\<close> are the table widget's: a position greater than the row count
  inserts nothing, and the items and the selection of a row that is not there are
  dropped. The new row has a yellow icon and becomes the current row. \<^verbatim>\<open>m\<close> and \<^verbatim>\<open>v\<close> may
  be \<^verbatim>\<open>None\<close> or empty, which \<^verbatim>\<open>if m\<close> and \<^verbatim>\<open>if v\<close> treat alike; \<^verbatim>\<open>v\<close> is a string here,
  empty for \<^verbatim>\<open>None\<close>. The context is not touched.
\<close>

definition addTransform :: "int \<Rightarrow> string option \<Rightarrow> string \<Rightarrow> string \<Rightarrow> bool \<Rightarrow> widget \<Rightarrow> widget" where
  "addTransform pos m t v act w =
     (let p = (if 0 \<le> pos then nat pos
               else case current_row w of None \<Rightarrow> length (table w) | Some r \<Rightarrow> Suc r);
          r = \<lparr>active = act, status = Yellow,
               target = (case m of None \<Rightarrow> t | Some mm \<Rightarrow> if mm = [] then t else mm @ ''.'' @ t),
               args = v\<rparr>
      in if p \<le> length (table w)
         then w\<lparr>table := take p (table w) @ [r] @ drop p (table w), current_row := Some p\<rparr>
         else w)"

text \<open>
  \<^verbatim>\<open>onAddTransform\<close>, with the current texts of the module and the transform combo boxes.
  \<^verbatim>\<open>t[-1]\<close> is the last character of a name that is not empty here. The key names are
  read from the settings \<^verbatim>\<open>SlicerMONAIViz/imageKey\<close> and \<^verbatim>\<open>SlicerMONAIViz/labelKey\<close>; the
  settings panel of the module registers \<^verbatim>\<open>MONAIViz/imageKey\<close> and \<^verbatim>\<open>MONAIViz/labelKey\<close>
  (lines 90 and 96), which \<^verbatim>\<open>prepare_dict\<close> and \<^verbatim>\<open>onRunTransform\<close> read. The format string
  is \<^verbatim>\<open>keys=['{image_key}', '{label_key}']\<close>. In \<^verbatim>\<open>SlicerMONAIViz.py\<close> the function passes
  \<^verbatim>\<open>None\<close> for the arguments and suggests nothing.
\<close>

definition onAddTransform :: "string \<Rightarrow> string \<Rightarrow> widget \<Rightarrow> widget" where
  "onAddTransform m t w =
     (if m = [] \<or> t = [] then w
      else
        (let v =
           (if last t = CHR ''d'' then
              (if t \<notin> set not_dictionary then
                 (let image_key = settingsValue (settings w) ''SlicerMONAIViz/imageKey'' ''image'';
                      label_key = settingsValue (settings w) ''SlicerMONAIViz/labelKey'' ''label''
                  in ''keys=['' @ [CHR 0x27] @ image_key @ [CHR 0x27] @ '', '' @ [CHR 0x27] @ label_key
                       @ [CHR 0x27] @ '']'')
               else [])
            else [])
         in addTransform (- 1) None t v True w))"

text \<open>
  For the statements: the suggestion for two key names, and the row at which
  \<^verbatim>\<open>addTransform\<close> inserts for a negative position.
\<close>

definition keys_of :: "string \<Rightarrow> string \<Rightarrow> string" where
  "keys_of image_key label_key =
     ''keys=['' @ [CHR 0x27] @ image_key @ [CHR 0x27] @ '', '' @ [CHR 0x27] @ label_key @ [CHR 0x27] @ '']''"

definition added_row :: "widget \<Rightarrow> nat" where
  "added_row w = (case current_row w of None \<Rightarrow> length (table w) | Some r \<Rightarrow> Suc r)"

text \<open>
  A widget with an empty table whose settings hold the key names \<^verbatim>\<open>img\<close> and \<^verbatim>\<open>seg\<close>, as
  the settings panel stores them.
\<close>

definition configured :: widget where
  "configured =
     \<lparr>table = [], current_row = None, ctx = init, image_path = ''a.nii.gz'', label_path = ''b.nii.gz'',
      additional = Inr [],
      settings = [(''MONAIViz/imageKey'', ''img''), (''MONAIViz/labelKey'', ''seg'')]\<rparr>"

section \<open>Properties of the execution cache\<close>

lemma valid_iff: "valid c \<longleftrightarrow> ctx_d c \<noteq> None \<and> next_idx c \<noteq> 0"
  by (simp add: valid_def)

lemma valid_init: "\<not> valid init"
  by (simp add: valid_def init_def)

lemma get_d_mismatch: "e \<noteq> next_exp c \<Longrightarrow> get_d c (Some e) d = Inr (d, init)"
  by (simp add: get_d_def valid_for_next_def reset_def valid_init)

lemma set_d_frame:
  "bidx (snd (set_d c d x k)) = bidx c \<and> next_idx (snd (set_d c d x k)) = next_idx c \<and>
   next_exp (snd (set_d c d x k)) = next_exp c"
  by (simp add: set_d_def Let_def split: sum.splits option.splits prod.splits)

text \<open>
  C10. \<^verbatim>\<open>set_next(i, e)\<close> writes only \<^verbatim>\<open>next_idx\<close> and \<^verbatim>\<open>next_exp\<close> when \<open>(i, e)\<close> is not
  the stored pair, and only \<^verbatim>\<open>bidx\<close>, which it increments by one, when it is. The cached
  data, \<^verbatim>\<open>last_exp\<close>, the channel flag and the original shape and affine are the same
  afterwards in both cases. Moving the frontier leaves the batch cursor as it is;
  \<^verbatim>\<open>set_d\<close> leaves it too, \<^verbatim>\<open>set_next\<close> never makes a cursor 0 that was not, and
  \<^verbatim>\<open>reset\<close> makes it 0.
\<close>

theorem C10_set_next_frame:
  "((next_idx c, next_exp c) \<noteq> (i, e) \<longrightarrow>
      set_next c i e = c\<lparr>next_idx := i, next_exp := e\<rparr> \<and> bidx (set_next c i e) = bidx c) \<and>
   ((next_idx c, next_exp c) = (i, e) \<longrightarrow> set_next c i e = c\<lparr>bidx := bidx c + 1\<rparr>) \<and>
   ctx_d (set_next c i e) = ctx_d c \<and> last_exp (set_next c i e) = last_exp c \<and>
   channel (set_next c i e) = channel c \<and>
   original_spatial_shape (set_next c i e) = original_spatial_shape c \<and>
   original_affine (set_next c i e) = original_affine c \<and>
   bidx c \<le> bidx (set_next c i e) \<and>
   bidx (snd (set_d c d x k)) = bidx c \<and>
   bidx (reset c) = 0"
  using set_d_frame [of c d x k] by (simp add: set_next_def reset_def init_def)

theorem C10_witness:
  "(next_idx (init\<lparr>next_idx := 1, next_exp := ''a'', bidx := 3\<rparr>),
    next_exp (init\<lparr>next_idx := 1, next_exp := ''a'', bidx := 3\<rparr>)) \<noteq> (2, ''b'') \<and>
   set_next (init\<lparr>next_idx := 1, next_exp := ''a'', bidx := 3\<rparr>) 2 ''b''
     = init\<lparr>next_idx := 2, next_exp := ''b'', bidx := 3\<rparr> \<and>
   (next_idx (init\<lparr>next_idx := 1, next_exp := ''a'', bidx := 3\<rparr>),
    next_exp (init\<lparr>next_idx := 1, next_exp := ''a'', bidx := 3\<rparr>)) = (1, ''a'') \<and>
   set_next (init\<lparr>next_idx := 1, next_exp := ''a'', bidx := 3\<rparr>) 1 ''a''
     = init\<lparr>next_idx := 1, next_exp := ''a'', bidx := 4\<rparr>"
  using C10_set_next_frame [of "init\<lparr>next_idx := 1, next_exp := ''a'', bidx := 3\<rparr>" 2 "''b''"]
    C10_set_next_frame [of "init\<lparr>next_idx := 1, next_exp := ''a'', bidx := 3\<rparr>" 1 "''a''"]
  by (simp add: init_def)

section \<open>The loop of \<^verbatim>\<open>onRunTransform\<close>\<close>

lemma set_icon_nth:
  "active (set_icon tbl r' i ! r) = active (tbl ! r) \<and>
   get_exp (set_icon tbl r' i ! r) = get_exp (tbl ! r)"
proof (cases "r' < length tbl")
  case True
  then show ?thesis
    by (cases "r = r'") (simp_all add: set_icon_def get_exp_def)
next
  case False
  then show ?thesis by (simp add: set_icon_def list_update_beyond)
qed

lemma length_set_icon: "length (set_icon tbl r i) = length tbl"
  by (simp add: set_icon_def)

lemma active_of_set_icon: "active_of (set_icon tbl r i) rs = active_of tbl rs"
  by (simp add: active_of_def set_icon_nth)

lemma exps_set_icon: "exps (set_icon tbl r i) rs = exps tbl rs"
  by (simp add: exps_def set_icon_nth)

lemma set_d_ok:
  "set_d c d x k = (None, c') \<Longrightarrow> ctx_d c' = Some d \<and> last_exp c' = x"
  by (auto simp: set_d_def Let_def split: sum.splits option.splits prod.splits if_splits)

lemma set_d_fail:
  "set_d c d x k = (Some e, c') \<Longrightarrow> ctx_d c' = ctx_d c \<and> last_exp c' = last_exp c \<and> channel c' = channel c"
  by (auto simp: set_d_def Let_def split: sum.splits option.splits prod.splits if_splits)

lemma run_rows_table:
  "run_rows en key rs s = (err, s') \<Longrightarrow>
   length (ls_table s') = length (ls_table s) \<and>
   active_of (ls_table s') qs = active_of (ls_table s) qs \<and>
   exps (ls_table s') qs = exps (ls_table s) qs"
proof (induction rs arbitrary: s)
  case Nil
  then show ?case by simp
next
  case (Cons r rs)
  show ?case
  proof (cases "r < length (ls_table s)")
    case False
    with Cons.prems show ?thesis by simp
  next
    case inr: True
    show ?thesis
    proof (cases "active (ls_table s ! r)")
      case False
      with inr Cons.prems
      have "run_rows en key rs (s\<lparr>ls_table := set_icon (ls_table s) r Yellow\<rparr>) = (err, s')"
        by simp
      from Cons.IH [OF this] show ?thesis
        by (simp add: length_set_icon active_of_set_icon exps_set_icon)
    next
      case True
      show ?thesis
      proof (cases "ev en (get_exp (ls_table s ! r))")
        case (Inl e)
        with True inr Cons.prems show ?thesis by (auto simp: Let_def)
      next
        case (Inr t)
        show ?thesis
        proof (cases "apply_transform t (ls_d s)")
          case (Inl e)
          with Inr True inr Cons.prems show ?thesis by (auto simp: Let_def)
        next
          case d': (Inr d')
          obtain o' c' where sd: "set_d (ls_ctx s) d' (get_exp (ls_table s ! r)) key = (o', c')"
            by (cases "set_d (ls_ctx s) d' (get_exp (ls_table s ! r)) key")
          show ?thesis
          proof (cases o')
            case (Some e)
            with sd d' Inr True inr Cons.prems show ?thesis by (auto simp: Let_def)
          next
            case None
            with sd d' Inr True inr Cons.prems
            have "run_rows en key rs (s\<lparr>ls_trace := ls_trace s @ [r], ls_d := d', ls_ctx := c',
               ls_table := set_icon (ls_table s) r Green\<rparr>) = (err, s')"
              by (simp add: Let_def)
            from Cons.IH [OF this] show ?thesis
              by (simp add: length_set_icon active_of_set_icon exps_set_icon)
          qed
        qed
      qed
    qed
  qed
qed

lemma run_rows_Cons_cases:
  assumes "run_rows en key (r # rs) s = (err, s')"
  obtains
    (oob) "\<not> r < length (ls_table s)" "err = Some AttributeError" "s' = s"
  | (skip) "r < length (ls_table s)" "\<not> active (ls_table s ! r)"
      "run_rows en key rs (s\<lparr>ls_table := set_icon (ls_table s) r Yellow\<rparr>) = (err, s')"
  | (ev_fail) e where "r < length (ls_table s)" "active (ls_table s ! r)"
      "ev en (get_exp (ls_table s ! r)) = Inl e" "err = Some e"
      "s' = s\<lparr>ls_trace := ls_trace s @ [r]\<rparr>"
  | (ap_fail) t e where "r < length (ls_table s)" "active (ls_table s ! r)"
      "ev en (get_exp (ls_table s ! r)) = Inr t" "apply_transform t (ls_d s) = Inl e"
      "err = Some e" "s' = s\<lparr>ls_trace := ls_trace s @ [r]\<rparr>"
  | (set_fail) t d' e c' where "r < length (ls_table s)" "active (ls_table s ! r)"
      "ev en (get_exp (ls_table s ! r)) = Inr t" "apply_transform t (ls_d s) = Inr d'"
      "set_d (ls_ctx s) d' (get_exp (ls_table s ! r)) key = (Some e, c')"
      "err = Some e" "s' = s\<lparr>ls_trace := ls_trace s @ [r], ls_d := d', ls_ctx := c'\<rparr>"
  | (step) t d' c' where "r < length (ls_table s)" "active (ls_table s ! r)"
      "ev en (get_exp (ls_table s ! r)) = Inr t" "apply_transform t (ls_d s) = Inr d'"
      "set_d (ls_ctx s) d' (get_exp (ls_table s ! r)) key = (None, c')"
      "run_rows en key rs (s\<lparr>ls_trace := ls_trace s @ [r], ls_d := d', ls_ctx := c',
         ls_table := set_icon (ls_table s) r Green\<rparr>) = (err, s')"
proof (cases "r < length (ls_table s)")
  case False
  have "err = Some AttributeError \<and> s' = s" using assms False by auto
  then show ?thesis using oob False by blast
next
  case inr: True
  show ?thesis
  proof (cases "active (ls_table s ! r)")
    case False
    have "run_rows en key rs (s\<lparr>ls_table := set_icon (ls_table s) r Yellow\<rparr>) = (err, s')"
      using assms inr False by simp
    then show ?thesis using skip inr False by blast
  next
    case True
    show ?thesis
    proof (cases "ev en (get_exp (ls_table s ! r))")
      case (Inl e)
      have "err = Some e \<and> s' = s\<lparr>ls_trace := ls_trace s @ [r]\<rparr>"
        using assms inr True Inl by (auto simp: Let_def)
      then show ?thesis using ev_fail inr True Inl by blast
    next
      case (Inr t)
      show ?thesis
      proof (cases "apply_transform t (ls_d s)")
        case (Inl e)
        have "err = Some e \<and> s' = s\<lparr>ls_trace := ls_trace s @ [r]\<rparr>"
          using assms inr True Inr Inl by (auto simp: Let_def)
        then show ?thesis using ap_fail inr True Inr Inl by blast
      next
        case d': (Inr d')
        obtain o' c' where sd: "set_d (ls_ctx s) d' (get_exp (ls_table s ! r)) key = (o', c')"
          by (cases "set_d (ls_ctx s) d' (get_exp (ls_table s ! r)) key")
        show ?thesis
        proof (cases o')
          case (Some e)
          have "err = Some e \<and> s' = s\<lparr>ls_trace := ls_trace s @ [r], ls_d := d', ls_ctx := c'\<rparr>"
            using assms inr True Inr d' sd Some by (auto simp: Let_def)
          then show ?thesis using set_fail inr True Inr d' sd Some by blast
        next
          case None
          have "run_rows en key rs (s\<lparr>ls_trace := ls_trace s @ [r], ls_d := d', ls_ctx := c',
             ls_table := set_icon (ls_table s) r Green\<rparr>) = (err, s')"
            using assms inr True Inr d' sd None by (simp add: Let_def)
          then show ?thesis using step inr True Inr d' sd None by blast
        qed
      qed
    qed
  qed
qed

lemma active_of_Cons:
  "active_of tbl (r # rs) = (if active (tbl ! r) then r # active_of tbl rs else active_of tbl rs)"
  by (simp add: active_of_def)

lemma exps_Cons: "exps tbl (r # rs) = get_exp (tbl ! r) # exps tbl rs"
  by (simp add: exps_def)

lemma run_rows_success:
  "run_rows en key rs s = (None, s') \<Longrightarrow>
   (\<forall>r\<in>set rs. r < length (ls_table s)) \<and>
   ls_trace s' = ls_trace s @ active_of (ls_table s) rs \<and>
   apply_all en (exps (ls_table s) (active_of (ls_table s) rs)) (ls_d s) = Inr (ls_d s') \<and>
   (if active_of (ls_table s) rs = [] then ls_ctx s' = ls_ctx s
    else ctx_d (ls_ctx s') = Some (ls_d s') \<and>
         last_exp (ls_ctx s') = get_exp (ls_table s ! last (active_of (ls_table s) rs)))"
proof (induction rs arbitrary: s)
  case Nil
  then show ?case by (simp add: active_of_def exps_def)
next
  case (Cons r rs)
  from Cons.prems show ?case
  proof (cases rule: run_rows_Cons_cases)
    case skip
    let ?s1 = "s\<lparr>ls_table := set_icon (ls_table s) r Yellow\<rparr>"
    note ih = Cons.IH [OF skip(3)]
    have a: "active_of (ls_table ?s1) rs = active_of (ls_table s) rs"
      by (simp add: active_of_set_icon)
    have b: "exps (ls_table ?s1) (active_of (ls_table s) rs) = exps (ls_table s) (active_of (ls_table s) rs)"
      by (simp add: exps_set_icon)
    have c: "get_exp (ls_table ?s1 ! last (active_of (ls_table s) rs))
       = get_exp (ls_table s ! last (active_of (ls_table s) rs))"
      by (simp add: set_icon_nth)
    have l: "length (ls_table ?s1) = length (ls_table s)" by (simp add: length_set_icon)
    from ih have "\<forall>q\<in>set rs. q < length (ls_table s)" using l by simp
    moreover from ih have "ls_trace s' = ls_trace s @ active_of (ls_table s) rs"
      using a by simp
    moreover from ih have "apply_all en (exps (ls_table s) (active_of (ls_table s) rs)) (ls_d s) = Inr (ls_d s')"
      using a b by simp
    moreover from ih have "(if active_of (ls_table s) rs = [] then ls_ctx s' = ls_ctx s
      else ctx_d (ls_ctx s') = Some (ls_d s') \<and>
         last_exp (ls_ctx s') = get_exp (ls_table s ! last (active_of (ls_table s) rs)))"
      using a c by simp
    ultimately show ?thesis using skip(1,2) by (simp add: active_of_Cons)
  next
    case (step t d' c')
    let ?s1 = "s\<lparr>ls_trace := ls_trace s @ [r], ls_d := d', ls_ctx := c',
         ls_table := set_icon (ls_table s) r Green\<rparr>"
    note ih = Cons.IH [OF step(6)]
    have a: "active_of (ls_table ?s1) rs = active_of (ls_table s) rs"
      by (simp add: active_of_set_icon)
    have b: "exps (ls_table ?s1) (active_of (ls_table s) rs) = exps (ls_table s) (active_of (ls_table s) rs)"
      by (simp add: exps_set_icon)
    have c: "get_exp (ls_table ?s1 ! last (active_of (ls_table s) rs))
       = get_exp (ls_table s ! last (active_of (ls_table s) rs))"
      by (simp add: set_icon_nth)
    have l: "length (ls_table ?s1) = length (ls_table s)" by (simp add: length_set_icon)
    from ih have 1: "\<forall>q\<in>set rs. q < length (ls_table s)" using l by simp
    from ih have 2: "ls_trace s' = ls_trace s @ r # active_of (ls_table s) rs"
      using a by simp
    from ih have 3: "apply_all en (exps (ls_table s) (active_of (ls_table s) rs)) d' = Inr (ls_d s')"
      using a b by simp
    from ih have 4: "(if active_of (ls_table s) rs = [] then ls_ctx s' = c'
      else ctx_d (ls_ctx s') = Some (ls_d s') \<and>
         last_exp (ls_ctx s') = get_exp (ls_table s ! last (active_of (ls_table s) rs)))"
      using a c by simp
    have 5: "active_of (ls_table s) rs = [] \<Longrightarrow> ls_d s' = d'"
      using 3 by (simp add: exps_def)
    from 1 2 3 4 5 step(1-5) set_d_ok [OF step(5)] show ?thesis
      by (simp add: active_of_Cons exps_Cons)
  qed simp_all
qed

lemma run_rows_frame:
  "run_rows en key rs s = (err, s') \<Longrightarrow>
   next_idx (ls_ctx s') = next_idx (ls_ctx s) \<and> next_exp (ls_ctx s') = next_exp (ls_ctx s) \<and>
   bidx (ls_ctx s') = bidx (ls_ctx s)"
proof (induction rs arbitrary: s)
  case Nil
  then show ?case by simp
next
  case (Cons r rs)
  from Cons.prems show ?case
  proof (cases rule: run_rows_Cons_cases)
    case skip
    from Cons.IH [OF skip(3)] show ?thesis by simp
  next
    case (set_fail t d' e c')
    with set_d_frame [of "ls_ctx s" d' "get_exp (ls_table s ! r)" key] show ?thesis by simp
  next
    case (step t d' c')
    from Cons.IH [OF step(6)] step(5)
      set_d_frame [of "ls_ctx s" d' "get_exp (ls_table s ! r)" key]
    show ?thesis by simp
  qed simp_all
qed


lemma status_set_icon:
  "r < length tbl \<Longrightarrow> status (set_icon tbl r i ! r) = i"
  "q \<noteq> r \<Longrightarrow> status (set_icon tbl r i ! q) = status (tbl ! q)"
  by (simp_all add: set_icon_def)

lemma run_rows_icons_other:
  "run_rows en key rs s = (err, s') \<Longrightarrow> q \<notin> set rs \<Longrightarrow>
   status (ls_table s' ! q) = status (ls_table s ! q)"
proof (induction rs arbitrary: s)
  case Nil
  then show ?case by simp
next
  case (Cons r rs)
  from Cons.prems(2) have ne: "q \<noteq> r" "q \<notin> set rs" by auto
  from Cons.prems(1) show ?case
  proof (cases rule: run_rows_Cons_cases)
    case skip
    from Cons.IH [OF skip(3) ne(2)] ne(1) show ?thesis by (simp add: status_set_icon)
  next
    case (step t d' c')
    from Cons.IH [OF step(6) ne(2)] ne(1) show ?thesis by (simp add: status_set_icon)
  qed simp_all
qed

lemma run_rows_icons:
  "run_rows en key rs s = (None, s') \<Longrightarrow> q \<in> set rs \<Longrightarrow>
   status (ls_table s' ! q) = (if active (ls_table s ! q) then Green else Yellow)"
proof (induction rs arbitrary: s)
  case Nil
  then show ?case by simp
next
  case (Cons r rs)
  from Cons.prems(1) show ?case
  proof (cases rule: run_rows_Cons_cases)
    case skip
    show ?thesis
    proof (cases "q \<in> set rs")
      case True
      from Cons.IH [OF skip(3) True] show ?thesis by (simp add: set_icon_nth)
    next
      case False
      with Cons.prems(2) have "q = r" by simp
      with run_rows_icons_other [OF skip(3) False] skip(1,2) show ?thesis
        by (simp add: status_set_icon)
    qed
  next
    case (step t d' c')
    show ?thesis
    proof (cases "q \<in> set rs")
      case True
      from Cons.IH [OF step(6) True] show ?thesis by (simp add: set_icon_nth)
    next
      case False
      with Cons.prems(2) have "q = r" by simp
      with run_rows_icons_other [OF step(6) False] step(1,2) show ?thesis
        by (simp add: status_set_icon)
    qed
  qed simp_all
qed

section \<open>\<^verbatim>\<open>onRunTransform\<close> as a whole\<close>

text \<open>
  \<^verbatim>\<open>get_d\<close> on an expression always returns: the context it leaves is \<open>aligned\<close> and the
  value \<open>start_value\<close>. An expression built by \<^verbatim>\<open>get_exp\<close> is never empty, so only the
  comparison with \<^verbatim>\<open>next_exp\<close> decides.
\<close>

lemma get_d_Some: "get_d c (Some x) d0 = Inr (start_value c x d0, aligned c x)"
  by (auto simp: get_d_def Let_def reset_def init_def valid_def start_value_def aligned_def
      split: option.splits)

lemma get_exp_nonempty: "get_exp r \<noteq> []"
  by (simp add: get_exp_def)

lemma aligned_get_exp:
  "aligned c (get_exp r) = (if get_exp r = next_exp c then c else init)"
  using get_exp_nonempty [of r] by (auto simp: aligned_def valid_for_next_def)


lemma onRun_unfold:
  assumes "image_path w \<noteq> []" "current_row w = Some k" "k < length (table w)"
    "prepare_dict w = Inr d0"
    "run_from en (settingsValue (settings w) ''MONAIViz/imageKey'' ''image'') (table w) k
       (get_exp (table w ! k)) (start_value (ctx w) (get_exp (table w ! k)) d0)
       (aligned (ctx w) (get_exp (table w ! k))) = (err, s)"
  shows "onRunTransform en w =
    (case err of
       Some e \<Rightarrow> (Raised e, w\<lparr>table := ls_table s, ctx := ls_ctx s\<rparr>, ls_trace s)
     | None \<Rightarrow>
         (case viewer en (ls_ctx s) of
            Some e \<Rightarrow>
              (Raised e,
               if Suc k < length (ls_table s)
               then w\<lparr>table := yellow_from (Suc k) (ls_table s),
                      current_row := Some (Suc k), ctx := ls_ctx s\<rparr>
               else w\<lparr>table := ls_table s, ctx := ls_ctx s\<rparr>, ls_trace s)
          | None \<Rightarrow>
              (Returned,
               if Suc k < length (ls_table s)
               then w\<lparr>table := yellow_from (Suc k) (ls_table s), current_row := Some (Suc k),
                      ctx := set_next (ls_ctx s) (int (Suc k)) (get_exp (ls_table s ! Suc k))\<rparr>
               else w\<lparr>table := ls_table s,
                      ctx := set_next (ls_ctx s) (int k) (get_exp (ls_table s ! k))\<rparr>, ls_trace s)))"
  using assms
  by (simp add: onRunTransform_def get_exp_at_def get_d_Some Let_def split: option.splits)

lemma onRun_Returned_pre:
  assumes "onRunTransform en w = (Returned, w', tr)" "image_path w \<noteq> []" "current_row w = Some k"
  shows "k < length (table w) \<and> (\<exists>d0. prepare_dict w = Inr d0)"
  using assms
  by (auto simp: onRunTransform_def get_exp_at_def Let_def split: if_splits sum.splits)

lemma run_from_success:
  assumes "run_from en key tbl k x d c0 = (None, s)" "last_exp c0 \<noteq> x"
  shows "0 \<le> next_idx c0 \<and>
    ls_trace s = active_of tbl [nat (next_idx c0) ..< Suc k] \<and>
    apply_all en (exps tbl (ls_trace s)) d = Inr (ls_d s) \<and>
    (if ls_trace s = [] then ls_ctx s = c0
     else ctx_d (ls_ctx s) = Some (ls_d s) \<and> last_exp (ls_ctx s) = get_exp (tbl ! last (ls_trace s))) \<and>
    length (ls_table s) = length tbl \<and>
    (\<forall>q. get_exp (ls_table s ! q) = get_exp (tbl ! q)) \<and>
    (\<forall>q\<in>set [nat (next_idx c0) ..< Suc k].
        status (ls_table s ! q) = (if active (tbl ! q) then Green else Yellow)) \<and>
    next_idx (ls_ctx s) = next_idx c0 \<and> next_exp (ls_ctx s) = next_exp c0 \<and>
    bidx (ls_ctx s) = bidx c0"
proof -
  let ?s0 = "\<lparr>ls_d = d, ls_ctx = c0, ls_table = tbl, ls_trace = []\<rparr>"
  let ?rs = "[nat (next_idx c0) ..< Suc k]"
  have nn: "0 \<le> next_idx c0"
    using assms by (cases "next_idx c0 < 0") (simp_all add: run_from_def Let_def)
  have run: "run_rows en key ?rs ?s0 = (None, s)"
    using assms nn by (simp add: run_from_def Let_def del: upt_Suc)
  note a = run_rows_success [OF run]
  note t = run_rows_table [OF run]
  note f = run_rows_frame [OF run]
  have e: "\<forall>q. get_exp (ls_table s ! q) = get_exp (tbl ! q)"
  proof
    fix q
    from t [of "[q]"] show "get_exp (ls_table s ! q) = get_exp (tbl ! q)"
      by (simp add: exps_def)
  qed
  have i: "\<forall>q\<in>set ?rs.
        status (ls_table s ! q) = (if active (tbl ! q) then Green else Yellow)"
    using run_rows_icons [OF run] by (simp del: upt_Suc)
  from a have 1: "ls_trace s = active_of tbl ?rs" by (simp del: upt_Suc)
  from a 1 have 2: "apply_all en (exps tbl (ls_trace s)) d = Inr (ls_d s)" by (simp del: upt_Suc)
  from a 1 have 3: "(if ls_trace s = [] then ls_ctx s = c0
     else ctx_d (ls_ctx s) = Some (ls_d s) \<and> last_exp (ls_ctx s) = get_exp (tbl ! last (ls_trace s)))"
    by (simp del: upt_Suc)
  from t [of "[]"] have 4: "length (ls_table s) = length tbl" by simp
  from f have 5: "next_idx (ls_ctx s) = next_idx c0 \<and> next_exp (ls_ctx s) = next_exp c0 \<and>
    bidx (ls_ctx s) = bidx c0" by simp
  from nn 1 2 3 4 e i 5 show ?thesis by blast
qed

lemma run_from_frame:
  assumes "run_from en key tbl k x d c0 = (err, s)"
  shows "next_idx (ls_ctx s) = next_idx c0 \<and> next_exp (ls_ctx s) = next_exp c0 \<and>
    bidx (ls_ctx s) = bidx c0"
proof (cases "last_exp c0 \<noteq> x \<and> \<not> next_idx c0 < 0")
  case True
  with assms have
    "run_rows en key [nat (next_idx c0) ..< Suc k]
       \<lparr>ls_d = d, ls_ctx = c0, ls_table = tbl, ls_trace = []\<rparr> = (err, s)"
    by (simp add: run_from_def Let_def del: upt_Suc)
  from run_rows_frame [OF this] show ?thesis by simp
next
  case False
  with assms show ?thesis by (auto simp: run_from_def Let_def split: if_splits)
qed

lemma run_from_skip:
  "last_exp c0 = x \<Longrightarrow>
   run_from en key tbl k x d c0 = (None, \<lparr>ls_d = d, ls_ctx = c0, ls_table = tbl, ls_trace = []\<rparr>)"
  by (simp add: run_from_def)

lemma set_next_fields:
  "next_idx (set_next c i e) = i" "next_exp (set_next c i e) = e"
  "ctx_d (set_next c i e) = ctx_d c" "last_exp (set_next c i e) = last_exp c"
  by (simp_all add: set_next_def)


lemma onRun_Returned:
  assumes "onRunTransform en w = (Returned, w', tr)" "image_path w \<noteq> []" "current_row w = Some k"
  obtains d0 s where "k < length (table w)" "prepare_dict w = Inr d0"
    "run_from en (settingsValue (settings w) ''MONAIViz/imageKey'' ''image'') (table w) k
       (get_exp (table w ! k)) (start_value (ctx w) (get_exp (table w ! k)) d0)
       (aligned (ctx w) (get_exp (table w ! k))) = (None, s)"
    "viewer en (ls_ctx s) = None" "tr = ls_trace s"
    "w' = (if Suc k < length (ls_table s)
           then w\<lparr>table := yellow_from (Suc k) (ls_table s), current_row := Some (Suc k),
                  ctx := set_next (ls_ctx s) (int (Suc k)) (get_exp (ls_table s ! Suc k))\<rparr>
           else w\<lparr>table := ls_table s,
                  ctx := set_next (ls_ctx s) (int k) (get_exp (ls_table s ! k))\<rparr>)"
proof -
  from onRun_Returned_pre [OF assms] obtain d0 where
    k: "k < length (table w)" and d0: "prepare_dict w = Inr d0" by blast
  obtain err s where
    r: "run_from en (settingsValue (settings w) ''MONAIViz/imageKey'' ''image'') (table w) k
       (get_exp (table w ! k)) (start_value (ctx w) (get_exp (table w ! k)) d0)
       (aligned (ctx w) (get_exp (table w ! k))) = (err, s)"
    by (cases "run_from en (settingsValue (settings w) ''MONAIViz/imageKey'' ''image'') (table w) k
       (get_exp (table w ! k)) (start_value (ctx w) (get_exp (table w ! k)) d0)
       (aligned (ctx w) (get_exp (table w ! k)))")
  note u = onRun_unfold [OF assms(2,3) k d0 r, of]
  from u assms(1) have e: "err = None" by (cases err) simp_all
  from u assms(1) e have v: "viewer en (ls_ctx s) = None"
    by (cases "viewer en (ls_ctx s)") simp_all
  from u assms(1) e v have "tr = ls_trace s"
    "w' = (if Suc k < length (ls_table s)
           then w\<lparr>table := yellow_from (Suc k) (ls_table s), current_row := Some (Suc k),
                  ctx := set_next (ls_ctx s) (int (Suc k)) (get_exp (ls_table s ! Suc k))\<rparr>
           else w\<lparr>table := ls_table s,
                  ctx := set_next (ls_ctx s) (int k) (get_exp (ls_table s ! k))\<rparr>)"
    by simp_all
  with that k d0 r e v show ?thesis by blast
qed

section \<open>The frontier index is never negative\<close>

text \<open>
  \<^verbatim>\<open>__init__\<close> stores 0, and the widget passes \<^verbatim>\<open>set_next\<close> the current row or its
  successor only, after it has returned for a negative current row.
\<close>

lemma aligned_nonneg: "0 \<le> next_idx c \<Longrightarrow> 0 \<le> next_idx (aligned c x)"
  by (simp add: aligned_def init_def)

lemma onRunTransform_nonneg:
  assumes "0 \<le> next_idx (ctx w)"
  shows "0 \<le> next_idx (ctx (fst (snd (onRunTransform en w))))"
proof (cases "image_path w \<noteq> [] \<and> (\<exists>k. current_row w = Some k \<and> k < length (table w)) \<and>
    (\<exists>d0. prepare_dict w = Inr d0)")
  case False
  then show ?thesis using assms
    by (auto simp: onRunTransform_def get_exp_at_def Let_def split: option.splits sum.splits)
next
  case True
  then obtain k d0 where p: "image_path w \<noteq> []" and c: "current_row w = Some k"
    and k: "k < length (table w)" and d0: "prepare_dict w = Inr d0" by blast
  obtain err s where
    r: "run_from en (settingsValue (settings w) ''MONAIViz/imageKey'' ''image'') (table w) k
       (get_exp (table w ! k)) (start_value (ctx w) (get_exp (table w ! k)) d0)
       (aligned (ctx w) (get_exp (table w ! k))) = (err, s)"
    by (cases "run_from en (settingsValue (settings w) ''MONAIViz/imageKey'' ''image'') (table w) k
       (get_exp (table w ! k)) (start_value (ctx w) (get_exp (table w ! k)) d0)
       (aligned (ctx w) (get_exp (table w ! k)))")
  from run_from_frame [OF r] aligned_nonneg [OF assms] have "0 \<le> next_idx (ls_ctx s)" by simp
  then show ?thesis
    unfolding onRun_unfold [OF p c k d0 r]
    by (simp add: set_next_fields split: option.splits)
qed

lemma onEditTransform_nonneg:
  "0 \<le> next_idx (ctx w) \<Longrightarrow> 0 \<le> next_idx (ctx (snd (onEditTransform dc ne ra w)))"
  by (simp add: onEditTransform_def onClearTransform_def reset_def init_def Let_def
      split: option.splits)

lemma onBoxClicked_nonneg:
  "0 \<le> next_idx (ctx w) \<Longrightarrow> 0 \<le> next_idx (ctx (snd (onBoxClicked r w)))"
  by (simp add: onBoxClicked_def reset_def init_def split: sum.splits)

text \<open>
  C3. \<^verbatim>\<open>valid()\<close> is true exactly when the cached data is not \<^verbatim>\<open>None\<close> and
  \<^verbatim>\<open>next_idx\<close> is not 0. \<^verbatim>\<open>next_idx\<close> greater than 0 says the same of an index that is
  not negative, and every method of the widget that writes the context keeps the index
  so; of a negative index, which \<^verbatim>\<open>set_next\<close> accepts, it does not. \<^verbatim>\<open>get_d\<close>, asked to
  resume from an expression that is not the stored \<^verbatim>\<open>next_exp\<close>, resets every field of
  the context to its initial value and returns the dictionary the caller built.
\<close>

theorem C3_valid_and_get_d_reset:
  "(valid c \<longleftrightarrow> ctx_d c \<noteq> None \<and> next_idx c \<noteq> 0) \<and>
   (0 \<le> next_idx c \<longrightarrow> (valid c \<longleftrightarrow> ctx_d c \<noteq> None \<and> 0 < next_idx c)) \<and>
   (e \<noteq> next_exp c \<longrightarrow> get_d c (Some e) d = Inr (d, init) \<and> reset c = init) \<and>
   next_idx init = 0 \<and>
   (0 \<le> next_idx (ctx w) \<longrightarrow>
      0 \<le> next_idx (ctx (fst (snd (onRunTransform en w)))) \<and>
      0 \<le> next_idx (ctx (snd (onEditTransform dc ne ra w))) \<and>
      0 \<le> next_idx (ctx (snd (onBoxClicked r w))) \<and>
      0 \<le> next_idx (ctx (onClearTransform w)))"
proof -
  have 1: "valid c \<longleftrightarrow> ctx_d c \<noteq> None \<and> next_idx c \<noteq> 0" by (rule valid_iff)
  have 2: "0 \<le> next_idx c \<longrightarrow> (valid c \<longleftrightarrow> ctx_d c \<noteq> None \<and> 0 < next_idx c)"
    using valid_iff [of c] by auto
  have 3: "e \<noteq> next_exp c \<longrightarrow> get_d c (Some e) d = Inr (d, init) \<and> reset c = init"
    using get_d_mismatch [of e c d] by (simp add: reset_def)
  have 4: "next_idx init = 0" by (simp add: init_def)
  have 5: "0 \<le> next_idx (ctx w) \<longrightarrow>
      0 \<le> next_idx (ctx (fst (snd (onRunTransform en w)))) \<and>
      0 \<le> next_idx (ctx (snd (onEditTransform dc ne ra w))) \<and>
      0 \<le> next_idx (ctx (snd (onBoxClicked r w))) \<and>
      0 \<le> next_idx (ctx (onClearTransform w))"
    using onRunTransform_nonneg [of w en] onEditTransform_nonneg [of w dc ne ra]
      onBoxClicked_nonneg [of w r]
    by (simp add: onClearTransform_def reset_def init_def)
  from 1 2 3 4 5 show ?thesis by blast
qed

theorem C3_witness:
  "valid (init\<lparr>ctx_d := Some (Dict []), next_idx := 2, next_exp := ''monai.transforms.Spacingd()''\<rparr>) \<and>
   0 < next_idx (init\<lparr>ctx_d := Some (Dict []), next_idx := 2, next_exp := ''monai.transforms.Spacingd()''\<rparr>) \<and>
   ''monai.transforms.Flipd()'' \<noteq> ''monai.transforms.Spacingd()'' \<and>
   get_d (init\<lparr>ctx_d := Some (Dict []), next_idx := 2, next_exp := ''monai.transforms.Spacingd()''\<rparr>)
     (Some ''monai.transforms.Flipd()'') (Dict [(''image'', Str ''a.nii.gz'')])
   = Inr (Dict [(''image'', Str ''a.nii.gz'')], init) \<and>
   0 \<le> next_idx (ctx \<lparr>table = [], current_row = None,
     ctx = init\<lparr>ctx_d := Some (Dict []), next_idx := 2, next_exp := ''monai.transforms.Spacingd()''\<rparr>,
     image_path = ''a.nii.gz'', label_path = [], additional = Inr [], settings = []\<rparr>) \<and>
   0 \<le> next_idx (ctx (onClearTransform \<lparr>table = [], current_row = None,
     ctx = init\<lparr>ctx_d := Some (Dict []), next_idx := 2, next_exp := ''monai.transforms.Spacingd()''\<rparr>,
     image_path = ''a.nii.gz'', label_path = [], additional = Inr [], settings = []\<rparr>))"
  using C3_valid_and_get_d_reset
    [of "init\<lparr>ctx_d := Some (Dict []), next_idx := 2, next_exp := ''monai.transforms.Spacingd()''\<rparr>"
        "''monai.transforms.Flipd()''" "Dict [(''image'', Str ''a.nii.gz'')]"
        "\<lparr>table = [], current_row = None,
          ctx = init\<lparr>ctx_d := Some (Dict []), next_idx := 2, next_exp := ''monai.transforms.Spacingd()''\<rparr>,
          image_path = ''a.nii.gz'', label_path = [], additional = Inr [], settings = []\<rparr>"]
  by (simp add: init_def)

text \<open>
  After \<^verbatim>\<open>set_next(-1, "x")\<close> on a context that holds an empty dictionary \<^verbatim>\<open>valid()\<close> is
  true, and \<^verbatim>\<open>next_idx\<close> is not greater than 0.
\<close>

theorem C3_counterexample:
  "valid (set_next (init\<lparr>ctx_d := Some (Dict [])\<rparr>) (- 1) ''x'') \<and>
   \<not> (ctx_d (set_next (init\<lparr>ctx_d := Some (Dict [])\<rparr>) (- 1) ''x'') \<noteq> None \<and>
      0 < next_idx (set_next (init\<lparr>ctx_d := Some (Dict [])\<rparr>) (- 1) ''x''))"
  by (simp add: valid_def set_next_def init_def)

section \<open>What a run executes\<close>


lemma after_row0_eq:
  "after_row0 = (mk_widget [mk_row True ''LoadImaged''\<lparr>status := Green\<rparr>, mk_row True ''Flipd'',
              mk_row True ''Rotate90d''] 1
     (init\<lparr>ctx_d := Some (Dict [(''image'', MetaTensor [4, 4, 4] identity4)]),
        last_exp := ''monai.transforms.LoadImaged(keys=['image'])'',
        next_idx := 1, next_exp := ''monai.transforms.Flipd(keys=['image'])'',
        original_spatial_shape := Some [4, 4, 4], original_affine := Some identity4\<rparr>))"
  by code_simp



section \<open>Running a cached row again\<close>

lemma aligned_same: "next_exp c = get_exp r \<Longrightarrow> aligned c (get_exp r) = c"
  by (simp add: aligned_get_exp)

lemma batch_index_PList:
  "ctx_d c = Some (PList xs) \<Longrightarrow> xs \<noteq> [] \<Longrightarrow> batch_index c = Inr (Some (bidx c mod length xs))"
  by (simp add: batch_index_def)

lemma onRun_repeat:
  assumes "image_path w \<noteq> []" "current_row w = Some k" "k < length (table w)"
    "next_exp (ctx w) = get_exp (table w ! k)" "last_exp (ctx w) = get_exp (table w ! k)"
    "prepare_dict w = Inr d0" "viewer en (ctx w) = None"
  shows "onRunTransform en w =
      (Returned,
       (if Suc k < length (table w)
        then w\<lparr>table := yellow_from (Suc k) (table w), current_row := Some (Suc k),
               ctx := set_next (ctx w) (int (Suc k)) (get_exp (table w ! Suc k))\<rparr>
        else w\<lparr>ctx := set_next (ctx w) (int k) (get_exp (table w ! k))\<rparr>), [])"
proof -
  let ?x = "get_exp (table w ! k)"
  have a: "aligned (ctx w) ?x = ctx w" using assms(4) by (rule aligned_same)
  have r: "run_from en (settingsValue (settings w) ''MONAIViz/imageKey'' ''image'') (table w) k
       ?x (start_value (ctx w) ?x d0) (aligned (ctx w) ?x)
     = (None, \<lparr>ls_d = start_value (ctx w) ?x d0, ls_ctx = ctx w, ls_table = table w, ls_trace = []\<rparr>)"
    unfolding a using assms(5) by (rule run_from_skip)
  show ?thesis
    unfolding onRun_unfold [OF assms(1,2,3,6) r]
    using assms(7) by simp
qed

text \<open>
  C2. The context expects row \<open>k\<close> next, row \<open>k\<close> is the row applied last and the cached
  value is a list that is not empty. Running row \<open>k\<close> then executes no transform and
  leaves the cached list as it is. When \<open>k\<close> is the last row of the table,
  \<^verbatim>\<open>set_next\<close> is given the stored pair and increments the batch cursor by one, so that the
  batch index read from the context becomes \<open>(i + 1) mod len\<close> of the cached list. When
  the table has a row after \<open>k\<close>, \<^verbatim>\<open>set_next\<close> moves the frontier to \<open>k + 1\<close> and the
  cursor keeps its value.
\<close>

theorem C2_repeat_run_advances_cursor_on_last_row:
  assumes "image_path w \<noteq> []" and "current_row w = Some k" and "k < length (table w)"
    and "next_idx (ctx w) = int k" and "next_exp (ctx w) = get_exp (table w ! k)"
    and "last_exp (ctx w) = get_exp (table w ! k)"
    and "ctx_d (ctx w) = Some (PList xs)" and "xs \<noteq> []"
    and "prepare_dict w = Inr d0" and "viewer en (ctx w) = None"
  shows "onRunTransform en w =
      (Returned,
       (if Suc k < length (table w)
        then w\<lparr>table := yellow_from (Suc k) (table w), current_row := Some (Suc k),
               ctx := (ctx w)\<lparr>next_idx := int (Suc k), next_exp := get_exp (table w ! Suc k)\<rparr>\<rparr>
        else w\<lparr>ctx := (ctx w)\<lparr>bidx := bidx (ctx w) + 1\<rparr>\<rparr>), []) \<and>
     batch_index (ctx w) = Inr (Some (bidx (ctx w) mod length xs)) \<and>
     batch_index (ctx (fst (snd (onRunTransform en w)))) =
       Inr (Some ((if Suc k < length (table w) then bidx (ctx w) else bidx (ctx w) + 1) mod length xs))"
proof -
  have 1: "onRunTransform en w =
      (Returned,
       (if Suc k < length (table w)
        then w\<lparr>table := yellow_from (Suc k) (table w), current_row := Some (Suc k),
               ctx := (ctx w)\<lparr>next_idx := int (Suc k), next_exp := get_exp (table w ! Suc k)\<rparr>\<rparr>
        else w\<lparr>ctx := (ctx w)\<lparr>bidx := bidx (ctx w) + 1\<rparr>\<rparr>), [])"
    unfolding onRun_repeat [OF assms(1,2,3,5,6,9,10)]
    using assms(4,5) by (simp add: set_next_def)
  have 2: "batch_index (ctx w) = Inr (Some (bidx (ctx w) mod length xs))"
    using assms(7,8) by (rule batch_index_PList)
  have 3: "batch_index (ctx (fst (snd (onRunTransform en w)))) =
       Inr (Some ((if Suc k < length (table w) then bidx (ctx w) else bidx (ctx w) + 1) mod length xs))"
    unfolding 1 using assms(7,8) by (simp add: batch_index_def)
  from 1 2 3 show ?thesis by blast
qed

theorem C2_witness:
  "image_path after_crop \<noteq> [] \<and> current_row after_crop = Some 1 \<and>
   1 < length (table after_crop) \<and> Suc 1 = length (table after_crop) \<and>
   next_idx (ctx after_crop) = 1 \<and>
   next_exp (ctx after_crop) = get_exp (table after_crop ! 1) \<and>
   last_exp (ctx after_crop) = get_exp (table after_crop ! 1) \<and>
   ctx_d (ctx after_crop) =
     Some (PList [Dict [(''image'', MetaTensor [4, 4, 4] identity4)],
                  Dict [(''image'', MetaTensor [4, 4, 4] identity4)]]) \<and>
   bidx (ctx after_crop) = 0 \<and>
   prepare_dict after_crop = Inr (Dict [(''image'', Str ''a.nii.gz'')]) \<and>
   viewer en0 (ctx after_crop) = None \<and>
   onRunTransform en0 after_crop =
     (Returned, after_crop\<lparr>ctx := (ctx after_crop)\<lparr>bidx := 1\<rparr>\<rparr>, []) \<and>
   batch_index (ctx after_crop) = Inr (Some 0) \<and>
   batch_index (ctx (fst (snd (onRunTransform en0 after_crop)))) = Inr (Some 1)"
proof -
  have a: "image_path after_crop \<noteq> []" by code_simp
  have b: "current_row after_crop = Some 1" by code_simp
  have c: "1 < length (table after_crop)" by code_simp
  have c': "Suc 1 = length (table after_crop)" by code_simp
  have d: "next_idx (ctx after_crop) = int 1" by code_simp
  have e: "next_exp (ctx after_crop) = get_exp (table after_crop ! 1)" by code_simp
  have f: "last_exp (ctx after_crop) = get_exp (table after_crop ! 1)" by code_simp
  have g: "ctx_d (ctx after_crop) =
     Some (PList [Dict [(''image'', MetaTensor [4, 4, 4] identity4)],
                  Dict [(''image'', MetaTensor [4, 4, 4] identity4)]])" by code_simp
  have h: "[Dict [(''image'', MetaTensor [4, 4, 4] identity4)],
            Dict [(''image'', MetaTensor [4, 4, 4] identity4)]] \<noteq> []" by simp
  have i: "prepare_dict after_crop = Inr (Dict [(''image'', Str ''a.nii.gz'')])" by code_simp
  have j: "viewer en0 (ctx after_crop) = None" by (simp add: en0_def)
  have z: "bidx (ctx after_crop) = 0" by code_simp
  note t = C2_repeat_run_advances_cursor_on_last_row [OF a b c d e f g h i j]
  have r1: "onRunTransform en0 after_crop =
       (Returned, after_crop\<lparr>ctx := (ctx after_crop)\<lparr>bidx := 1\<rparr>\<rparr>, [])"
    using t [THEN conjunct1] c' z by simp
  have r2: "batch_index (ctx after_crop) = Inr (Some 0)"
    using t [THEN conjunct2, THEN conjunct1] z by simp
  have r3: "batch_index (ctx (fst (snd (onRunTransform en0 after_crop)))) = Inr (Some 1)"
    using t [THEN conjunct2, THEN conjunct2] c' z by simp
  from d have d': "next_idx (ctx after_crop) = 1" by simp
  from a b c c' d' e f g i j z r1 r2 r3 show ?thesis by blast
qed

text \<open>
  The cache expects row 1, holds the two samples row 1 produced, and a row follows
  row 1: running row 1 again executes nothing and leaves the batch index at 0.
\<close>

theorem C2_counterexample:
  "current_row row_added = Some 1 \<and> next_idx (ctx row_added) = 1 \<and>
   next_exp (ctx row_added) = get_exp (table row_added ! 1) \<and>
   last_exp (ctx row_added) = get_exp (table row_added ! 1) \<and>
   ctx_d (ctx row_added) =
     Some (PList [Dict [(''image'', MetaTensor [4, 4, 4] identity4)],
                  Dict [(''image'', MetaTensor [4, 4, 4] identity4)]]) \<and>
   batch_index (ctx row_added) = Inr (Some 0) \<and>
   snd (snd (onRunTransform en0 row_added)) = [] \<and>
   batch_index (ctx (fst (snd (onRunTransform en0 row_added)))) = Inr (Some 0) \<and>
   next_idx (ctx (fst (snd (onRunTransform en0 row_added)))) = 2 \<and>
   (0 + 1) mod length [Dict [(''image'', MetaTensor [4, 4, 4] identity4)],
                       Dict [(''image'', MetaTensor [4, 4, 4] identity4)]] = (1::nat)"
  by code_simp

section \<open>A run that raises\<close>





section \<open>Editing a row behind the frontier\<close>

lemma onRun_from_init:
  assumes "onRunTransform en w = (Returned, w', tr)" "image_path w \<noteq> []" "current_row w = Some k"
    "ctx w = init"
  shows "\<exists>d0 dn. prepare_dict w = Inr d0 \<and> tr = active_of (table w) [0 ..< Suc k] \<and>
    apply_all en (exps (table w) tr) d0 = Inr dn"
proof -
  let ?x = "get_exp (table w ! k)"
  from assms(1-3) obtain d0 s where
    d0: "prepare_dict w = Inr d0"
    and r: "run_from en (settingsValue (settings w) ''MONAIViz/imageKey'' ''image'') (table w) k
       ?x (start_value (ctx w) ?x d0) (aligned (ctx w) ?x) = (None, s)"
    and tr: "tr = ls_trace s"
    by (rule onRun_Returned)
  have a: "aligned (ctx w) ?x = init"
    using assms(4) by (simp add: aligned_get_exp)
  have b: "start_value (ctx w) ?x d0 = d0"
    using assms(4) by (simp add: start_value_def valid_init)
  have c: "last_exp init \<noteq> ?x"
    using get_exp_nonempty [of "table w ! k"] by (simp add: init_def)
  have n: "nat (next_idx init) = 0" by (simp add: init_def)
  note h = run_from_success [OF r [unfolded a b] c, unfolded n]
  from h tr have 1: "tr = active_of (table w) [0 ..< Suc k]" by blast
  from h tr have 2: "apply_all en (exps (table w) tr) d0 = Inr (ls_d s)" by blast
  from d0 1 2 show ?thesis by blast
qed

lemma yellow_from_0: "yellow_from 0 tbl = map (\<lambda>r. r\<lparr>status := Yellow\<rparr>) tbl"
  by (simp add: yellow_from_def)

text \<open>
  C4. The documentation page is in the temporary directory and the dialog gives an
  argument expression that is not the one row \<open>j\<close> has. When \<open>j\<close> is less than the
  frontier \<^verbatim>\<open>next_idx\<close>, \<^verbatim>\<open>onEditTransform\<close> clears the cache: the context is the initial
  one, hence not valid, every status icon is yellow and row \<open>j\<close> has the new arguments.
  Whichever row \<open>k\<close> is run next, a run that returns has executed exactly the active
  rows from row 0 through \<open>k\<close>, starting from the freshly built dictionary.
\<close>

theorem C4_edit_before_frontier_resets_cache:
  assumes "(case row_arg of None \<Rightarrow> current_row w | Some r \<Rightarrow> Some r) = Some j"
    and "j < length (table w)" and "int j < next_idx (ctx w)"
    and "e \<noteq> args (table w ! j)" and "image_path w \<noteq> []"
  shows "onEditTransform True (Some e) row_arg w =
       (Returned, w\<lparr>ctx := init,
                    table := (yellow_from 0 (table w))[j := (yellow_from 0 (table w) ! j)\<lparr>args := e\<rparr>]\<rparr>) \<and>
     \<not> valid (ctx (snd (onEditTransform True (Some e) row_arg w))) \<and>
     table (snd (onEditTransform True (Some e) row_arg w))
       = (map (\<lambda>r. r\<lparr>status := Yellow\<rparr>) (table w))[j := (table w ! j)\<lparr>status := Yellow, args := e\<rparr>] \<and>
     (\<forall>en k w2 tr.
        onRunTransform en ((snd (onEditTransform True (Some e) row_arg w))\<lparr>current_row := Some k\<rparr>)
          = (Returned, w2, tr) \<longrightarrow>
        (\<exists>d0 dn. prepare_dict w = Inr d0 \<and>
           tr = active_of (table (snd (onEditTransform True (Some e) row_arg w))) [0 ..< Suc k] \<and>
           apply_all en (exps (table (snd (onEditTransform True (Some e) row_arg w))) tr) d0 = Inr dn))"
proof -
  let ?w' = "w\<lparr>ctx := init,
                table := (yellow_from 0 (table w))[j := (yellow_from 0 (table w) ! j)\<lparr>args := e\<rparr>]\<rparr>"
  have 1: "onEditTransform True (Some e) row_arg w = (Returned, ?w')"
    using assms(1-4)
    by (simp add: onEditTransform_def onClearTransform_def reset_def Let_def)
  have 2: "\<not> valid (ctx (snd (onEditTransform True (Some e) row_arg w)))"
    unfolding 1 by (simp add: valid_init)
  have 3: "table (snd (onEditTransform True (Some e) row_arg w))
       = (map (\<lambda>r. r\<lparr>status := Yellow\<rparr>) (table w))[j := (table w ! j)\<lparr>status := Yellow, args := e\<rparr>]"
    unfolding 1 using assms(2) by (simp add: yellow_from_0)
  have p: "prepare_dict (?w'\<lparr>current_row := Some k\<rparr>) = prepare_dict w" for k
    by (simp add: prepare_dict_def Let_def split: sum.splits)
  have 4: "\<forall>en k w2 tr.
        onRunTransform en ((snd (onEditTransform True (Some e) row_arg w))\<lparr>current_row := Some k\<rparr>)
          = (Returned, w2, tr) \<longrightarrow>
        (\<exists>d0 dn. prepare_dict w = Inr d0 \<and>
           tr = active_of (table (snd (onEditTransform True (Some e) row_arg w))) [0 ..< Suc k] \<and>
           apply_all en (exps (table (snd (onEditTransform True (Some e) row_arg w))) tr) d0 = Inr dn)"
  proof (intro allI impI)
    fix en k w2 tr
    assume "onRunTransform en ((snd (onEditTransform True (Some e) row_arg w))\<lparr>current_row := Some k\<rparr>)
          = (Returned, w2, tr)"
    then have run: "onRunTransform en (?w'\<lparr>current_row := Some k\<rparr>) = (Returned, w2, tr)"
      unfolding 1 by simp
    have i: "image_path (?w'\<lparr>current_row := Some k\<rparr>) \<noteq> []" using assms(5) by simp
    have c: "current_row (?w'\<lparr>current_row := Some k\<rparr>) = Some k" by simp
    have x: "ctx (?w'\<lparr>current_row := Some k\<rparr>) = init" by simp
    from onRun_from_init [OF run i c x] obtain d0 dn where
      "prepare_dict (?w'\<lparr>current_row := Some k\<rparr>) = Inr d0"
      "tr = active_of (table (?w'\<lparr>current_row := Some k\<rparr>)) [0 ..< Suc k]"
      "apply_all en (exps (table (?w'\<lparr>current_row := Some k\<rparr>)) tr) d0 = Inr dn"
      by blast
    then have "prepare_dict w = Inr d0 \<and> tr = active_of (table ?w') [0 ..< Suc k] \<and>
      apply_all en (exps (table ?w') tr) d0 = Inr dn"
      unfolding p by simp
    then show "\<exists>d0 dn. prepare_dict w = Inr d0 \<and>
           tr = active_of (table (snd (onEditTransform True (Some e) row_arg w))) [0 ..< Suc k] \<and>
           apply_all en (exps (table (snd (onEditTransform True (Some e) row_arg w))) tr) d0 = Inr dn"
      unfolding 1 by auto
  qed
  from 1 2 3 4 show ?thesis by blast
qed

theorem C4_witness:
  "current_row after_row0 = Some 1 \<and> 0 < length (table after_row0) \<and>
   int 0 < next_idx (ctx after_row0) \<and> valid (ctx after_row0) \<and>
   ''keys=['image'], image_only=True'' \<noteq> args (table after_row0 ! 0) \<and>
   image_path after_row0 \<noteq> [] \<and>
   ctx edited_row0 = init \<and>
   args (table edited_row0 ! 0) = ''keys=['image'], image_only=True'' \<and>
   onRunTransform en0 (edited_row0\<lparr>current_row := Some 1\<rparr>)
     = (Returned, fst (snd (onRunTransform en0 (edited_row0\<lparr>current_row := Some 1\<rparr>))), [0, 1]) \<and>
   [0, 1] = active_of (table edited_row0) [0 ..< Suc 1]"
proof -
  let ?e = "''keys=['image'], image_only=True''"
  have a: "(case Some 0 of None \<Rightarrow> current_row after_row0 | Some r \<Rightarrow> Some r) = Some 0" by simp
  have b: "0 < length (table after_row0)" by code_simp
  have c: "int 0 < next_idx (ctx after_row0)" by code_simp
  have d: "?e \<noteq> args (table after_row0 ! 0)" by code_simp
  have e: "image_path after_row0 \<noteq> []" by code_simp
  have f: "current_row after_row0 = Some 1" by code_simp
  have v: "valid (ctx after_row0)" by code_simp
  have g: "onRunTransform en0 (edited_row0\<lparr>current_row := Some 1\<rparr>)
     = (Returned, fst (snd (onRunTransform en0 (edited_row0\<lparr>current_row := Some 1\<rparr>))), [0, 1])"
    by code_simp
  note t = C4_edit_before_frontier_resets_cache [OF a b c d e]
  have r1: "ctx edited_row0 = init"
    unfolding edited_row0_def t [THEN conjunct1] by simp
  have r2: "args (table edited_row0 ! 0) = ?e"
    unfolding edited_row0_def t [THEN conjunct1] using b by (simp add: yellow_from_0)
  from t [THEN conjunct2, THEN conjunct2, THEN conjunct2] g
  have r3: "[0, 1] = active_of (table edited_row0) [0 ..< Suc 1]"
    unfolding edited_row0_def by blast
  from b c d e f v g r1 r2 r3 show ?thesis by blast
qed

section \<open>The default arguments of an added transform\<close>

lemma addTransform_end:
  "added_row w \<le> length (table w) \<Longrightarrow>
   addTransform (- 1) None t v True w =
     w\<lparr>table := take (added_row w) (table w)
                  @ [\<lparr>active = True, status = Yellow, target = t, args = v\<rparr>]
                  @ drop (added_row w) (table w),
        current_row := Some (added_row w)\<rparr>"
  by (simp add: addTransform_def added_row_def Let_def)

text \<open>
  C9. \<^verbatim>\<open>onAddTransform\<close> adds one row, with the name chosen, and gives it the arguments
  \<^verbatim>\<open>keys=['<image key>', '<label key>']\<close> exactly when the name ends in \<^verbatim>\<open>d\<close> and is
  not one of the four listed names; otherwise the arguments are empty. \<^verbatim>\<open>LoadImaged\<close>
  gets the keys and \<^verbatim>\<open>RandAffineGrid\<close> does not. The two key names are the values of the
  settings \<^verbatim>\<open>SlicerMONAIViz/imageKey\<close> and \<^verbatim>\<open>SlicerMONAIViz/labelKey\<close>, with the defaults
  \<^verbatim>\<open>image\<close> and \<^verbatim>\<open>label\<close>.
\<close>

theorem C9_default_keys_suggestion:
  assumes "m \<noteq> []" and "t \<noteq> []" and "added_row w \<le> length (table w)"
  shows "length (table (onAddTransform m t w)) = Suc (length (table w)) \<and>
     current_row (onAddTransform m t w) = Some (added_row w) \<and>
     target (table (onAddTransform m t w) ! added_row w) = t \<and>
     args (table (onAddTransform m t w) ! added_row w) =
       (if last t = CHR ''d'' \<and> t \<notin> set not_dictionary
        then keys_of (settingsValue (settings w) ''SlicerMONAIViz/imageKey'' ''image'')
                     (settingsValue (settings w) ''SlicerMONAIViz/labelKey'' ''label'')
        else []) \<and>
     (args (table (onAddTransform m t w) ! added_row w) \<noteq> [] \<longleftrightarrow>
        last t = CHR ''d'' \<and> t \<notin> set not_dictionary) \<and>
     last ''LoadImaged'' = CHR ''d'' \<and> ''LoadImaged'' \<notin> set not_dictionary \<and>
     ''RandAffineGrid'' \<in> set not_dictionary"
proof -
  let ?v = "(if last t = CHR ''d'' \<and> t \<notin> set not_dictionary
        then keys_of (settingsValue (settings w) ''SlicerMONAIViz/imageKey'' ''image'')
                     (settingsValue (settings w) ''SlicerMONAIViz/labelKey'' ''label'')
        else [])"
  have u: "onAddTransform m t w = addTransform (- 1) None t ?v True w"
    using assms(1,2) by (simp add: onAddTransform_def keys_of_def Let_def)
  note a = addTransform_end [OF assms(3), of t ?v]
  have 1: "length (table (onAddTransform m t w)) = Suc (length (table w))"
    unfolding u a using assms(3) by simp
  have 2: "current_row (onAddTransform m t w) = Some (added_row w)"
    unfolding u a by simp
  have n: "table (onAddTransform m t w) ! added_row w
      = \<lparr>active = True, status = Yellow, target = t, args = ?v\<rparr>"
    unfolding u a using assms(3) by (simp add: nth_append)
  have 3: "target (table (onAddTransform m t w) ! added_row w) = t"
    unfolding n by simp
  have 4: "args (table (onAddTransform m t w) ! added_row w) = ?v"
    unfolding n by simp
  have 5: "args (table (onAddTransform m t w) ! added_row w) \<noteq> [] \<longleftrightarrow>
        last t = CHR ''d'' \<and> t \<notin> set not_dictionary"
    unfolding 4 by (simp add: keys_of_def)
  have 6: "last ''LoadImaged'' = CHR ''d'' \<and> ''LoadImaged'' \<notin> set not_dictionary \<and>
     ''RandAffineGrid'' \<in> set not_dictionary"
    by (simp add: not_dictionary_def)
  from 1 2 3 4 5 6 show ?thesis by blast
qed

theorem C9_witness:
  "''monai.transforms'' \<noteq> [] \<and> ''LoadImaged'' \<noteq> [] \<and> ''RandAffineGrid'' \<noteq> [] \<and>
   added_row configured \<le> length (table configured) \<and>
   args (table (onAddTransform ''monai.transforms'' ''LoadImaged'' configured) ! 0)
     = keys_of ''image'' ''label'' \<and>
   args (table (onAddTransform ''monai.transforms'' ''RandAffineGrid'' configured) ! 0) = []"
proof -
  have a: "''monai.transforms'' \<noteq> []" by simp
  have b: "''LoadImaged'' \<noteq> []" "''RandAffineGrid'' \<noteq> []" by simp_all
  have c: "added_row configured \<le> length (table configured)"
    by (simp add: added_row_def configured_def)
  have z: "added_row configured = 0" by (simp add: added_row_def configured_def)
  have s: "settingsValue (settings configured) ''SlicerMONAIViz/imageKey'' ''image'' = ''image''"
    "settingsValue (settings configured) ''SlicerMONAIViz/labelKey'' ''label'' = ''label''"
    by (simp_all add: settingsValue_def configured_def)
  from C9_default_keys_suggestion [OF a b(1) c] z s
  have 1: "args (table (onAddTransform ''monai.transforms'' ''LoadImaged'' configured) ! 0)
     = keys_of ''image'' ''label''"
    by simp
  from C9_default_keys_suggestion [OF a b(2) c] z
  have 2: "args (table (onAddTransform ''monai.transforms'' ''RandAffineGrid'' configured) ! 0) = []"
    by simp
  from a b c 1 2 show ?thesis by blast
qed

text \<open>
  With the key names \<^verbatim>\<open>img\<close> and \<^verbatim>\<open>seg\<close> configured under \<^verbatim>\<open>MONAIViz/imageKey\<close> and
  \<^verbatim>\<open>MONAIViz/labelKey\<close>, the dictionary for the run is built with these keys, and the
  suggestion for \<^verbatim>\<open>LoadImaged\<close> names \<^verbatim>\<open>image\<close> and \<^verbatim>\<open>label\<close>.
\<close>

theorem C9_configured_keys_not_used:
  "settingsValue (settings configured) ''MONAIViz/imageKey'' ''image'' = ''img'' \<and>
   settingsValue (settings configured) ''MONAIViz/labelKey'' ''label'' = ''seg'' \<and>
   prepare_dict configured = Inr (Dict [(''img'', Str ''a.nii.gz''), (''seg'', Str ''b.nii.gz'')]) \<and>
   args (table (onAddTransform ''monai.transforms'' ''LoadImaged'' configured) ! 0)
     = keys_of ''image'' ''label'' \<and>
   keys_of ''image'' ''label'' \<noteq> keys_of ''img'' ''seg''"
  by code_simp

end
